theory Spec2Isabelle
  imports Main "HOL-Library.Sublist"
begin

section \<open>The audit agent: action-call parser, dispatcher and conversation loop\<close>

text \<open>
  A shallow embedding of \<^verbatim>\<open>src/audit-agent/audit_agent.py\<close>: the function
  \<^verbatim>\<open>parse_action\<close>, the methods \<^verbatim>\<open>AuditAgent.execute_tool\<close> and
  \<^verbatim>\<open>AuditAgent.run\<close>, and the library calls they make.

  Python strings are modelled as lists of characters. The character predicates below
  (\<^verbatim>\<open>str.isspace\<close>, \<^verbatim>\<open>str.isdigit\<close>, \<^verbatim>\<open>str.lower\<close>) are those of
  Python on ASCII text; Python's tables for code points beyond ASCII are not part of
  the model. A Python exception is a value: a computation that can raise returns
  \<open>exn + 'a\<close>, with \<open>Inl\<close> for the exception.
\<close>

subsection \<open>Exceptions\<close>

text \<open>An exception of a class derived from \<^verbatim>\<open>Exception\<close>: the name of its class
  and its message \<^verbatim>\<open>str(e)\<close>.\<close>

datatype exn = Exn string string

abbreviation (input) ValueError :: "string \<Rightarrow> exn" where
  "ValueError msg \<equiv> Exn ''ValueError'' msg"

fun message :: "exn \<Rightarrow> string" where
  "message (Exn cls msg) = msg"

subsection \<open>Python string primitives\<close>

abbreviation (input) SQ :: char where "SQ \<equiv> CHR 0x27"
abbreviation (input) DQ :: char where "DQ \<equiv> CHR 0x22"
abbreviation (input) BSL :: char where "BSL \<equiv> CHR 0x5C"
abbreviation (input) NL :: char where "NL \<equiv> CHR 0x0A"

text \<open>\<^verbatim>\<open>c.isspace()\<close>: tab, line feed, vertical tab, form feed, carriage return, the
  separators 0x1C to 0x1F, and the space.\<close>

definition isspace :: "char \<Rightarrow> bool" where
  "isspace c = (c \<in> {CHR 0x09, CHR 0x0A, CHR 0x0B, CHR 0x0C, CHR 0x0D,
                       CHR 0x1C, CHR 0x1D, CHR 0x1E, CHR 0x1F, CHR 0x20})"

text \<open>\<^verbatim>\<open>s.strip()\<close>.\<close>

definition lstrip :: "string \<Rightarrow> string" where
  "lstrip s = dropWhile isspace s"

definition rstrip :: "string \<Rightarrow> string" where
  "rstrip s = rev (dropWhile isspace (rev s))"

definition strip :: "string \<Rightarrow> string" where
  "strip s = rstrip (lstrip s)"

text \<open>\<^verbatim>\<open>s.split(c)\<close> for a one-character separator: the pieces between the
  separators, never an empty list.\<close>

fun split_chr :: "char \<Rightarrow> string \<Rightarrow> string list" where
  "split_chr sep [] = [[]]"
| "split_chr sep (c # cs) =
     (if c = sep then [] # split_chr sep cs
      else (case split_chr sep cs of
              [] \<Rightarrow> [[c]]
            | p # ps \<Rightarrow> (c # p) # ps))"

text \<open>\<^verbatim>\<open>s.startswith(p)\<close>, \<^verbatim>\<open>s.endswith(p)\<close> and \<^verbatim>\<open>p in s\<close>.\<close>

definition startswith :: "string \<Rightarrow> string \<Rightarrow> bool" where
  "startswith s p = (take (length p) s = p)"

definition endswith :: "string \<Rightarrow> string \<Rightarrow> bool" where
  "endswith s p = (length p \<le> length s \<and> drop (length s - length p) s = p)"

fun contains :: "string \<Rightarrow> string \<Rightarrow> bool" where
  "contains [] p = (p = [])"
| "contains (c # cs) p = (startswith (c # cs) p \<or> contains cs p)"

text \<open>\<^verbatim>\<open>s.replace(old, new, 1)\<close> for a non-empty \<^verbatim>\<open>old\<close>: the first occurrence only.\<close>

fun replace1 :: "string \<Rightarrow> string \<Rightarrow> string \<Rightarrow> string" where
  "replace1 old new [] = []"
| "replace1 old new (c # cs) =
     (if startswith (c # cs) old then new @ drop (length old) (c # cs)
      else c # replace1 old new cs)"

text \<open>\<^verbatim>\<open>s.find(c)\<close> for one character: the first index, or \<open>-1\<close>.\<close>

fun find_from :: "char \<Rightarrow> string \<Rightarrow> int \<Rightarrow> int" where
  "find_from x [] i = -1"
| "find_from x (c # cs) i = (if c = x then i else find_from x cs (i + 1))"

definition find :: "string \<Rightarrow> char \<Rightarrow> int" where
  "find s x = find_from x s 0"

text \<open>\<^verbatim>\<open>s[i:j]\<close>: a negative index counts from the end, and both are clamped to the
  string.\<close>

definition clamp_index :: "string \<Rightarrow> int \<Rightarrow> nat" where
  "clamp_index s i =
     (let n = int (length s) in
      if i < 0 then nat (max 0 (n + i)) else nat (min i n))"

definition slice :: "string \<Rightarrow> int \<Rightarrow> int \<Rightarrow> string" where
  "slice s i j = (let a = clamp_index s i; b = clamp_index s j in take (b - a) (drop a s))"

text \<open>\<^verbatim>\<open>s.isdigit()\<close> (false for the empty string), \<^verbatim>\<open>s.lower()\<close> and
  \<^verbatim>\<open>int(s)\<close> on a string of decimal digits. Python's integers are unbounded; the
  limit that recent versions of CPython put on the number of digits \<^verbatim>\<open>int\<close> reads
  (4300 unless configured) is not modelled.\<close>

definition digit_chr :: "char \<Rightarrow> bool" where
  "digit_chr c = (c \<in> set ''0123456789'')"

definition isdigit :: "string \<Rightarrow> bool" where
  "isdigit s = (s \<noteq> [] \<and> list_all digit_chr s)"

definition lower_chr :: "char \<Rightarrow> char" where
  "lower_chr c =
     (case map_of (zip ''ABCDEFGHIJKLMNOPQRSTUVWXYZ'' ''abcdefghijklmnopqrstuvwxyz'') c of
        Some d \<Rightarrow> d
      | None \<Rightarrow> c)"

definition lower :: "string \<Rightarrow> string" where
  "lower s = map lower_chr s"

definition digit_val :: "char \<Rightarrow> int" where
  "digit_val c = int (of_char c) - 48"

definition int_of_digits :: "string \<Rightarrow> int" where
  "int_of_digits s = foldl (\<lambda>n c. 10 * n + digit_val c) 0 s"

subsection \<open>Argument values\<close>

text \<open>
  The scalars \<^verbatim>\<open>parse_action\<close> produces: \<^verbatim>\<open>int\<close>, \<^verbatim>\<open>float\<close>,
  \<^verbatim>\<open>bool\<close>, \<^verbatim>\<open>None\<close> and \<^verbatim>\<open>str\<close>. \<open>PFloat m k\<close> stands for the float
  that \<^verbatim>\<open>float(val)\<close> reads from a decimal literal of value \<open>m / 10 ^ k\<close>
  (\<open>PFloat 35 1\<close> for \<^verbatim>\<open>3.5\<close>); the rounding of that decimal to a binary double is
  not modelled.
\<close>

datatype pyval = PInt int | PFloat int nat | PBool bool | PNone | PStr string

text \<open>\<^verbatim>\<open>float(val)\<close> for a string of digits and at most one point.\<close>

definition float_of :: "string \<Rightarrow> pyval" where
  "float_of val =
     PFloat (int_of_digits (replace1 ''.'' [] val))
            (length (drop 1 (dropWhile (\<lambda>c. c \<noteq> CHR ''.'') val)))"

text \<open>
  The coercion of one value, lines 258 to 271 of the source for a keyword value and,
  with the same text, lines 275 to 288 for a positional one.
\<close>

definition coerce :: "string \<Rightarrow> pyval" where
  "coerce val =
     (if isdigit val then PInt (int_of_digits val)
      else if isdigit (replace1 ''.'' [] val) then float_of val
      else if lower val = ''true'' then PBool True
      else if lower val = ''false'' then PBool False
      else if lower val = ''none'' then PNone
      else if (startswith val [DQ] \<and> endswith val [DQ]) \<or>
              (startswith val [SQ] \<and> endswith val [SQ])
           then PStr (slice val 1 (-1))
      else PStr val)"

subsection \<open>The tokenizer: \<^verbatim>\<open>shlex.shlex(args_part, posix=True)\<close>\<close>

text \<open>
  The source configures the lexer with \<^verbatim>\<open>whitespace = ','\<close>,
  \<^verbatim>\<open>whitespace_split = True\<close> and \<^verbatim>\<open>commenters = ''\<close>; the quotes are
  \<^verbatim>\<open>'\<close> and \<^verbatim>\<open>"\<close>, the escape is the backslash, and only the double quote is
  an escaped quote. \<open>lex\<close> is \<^verbatim>\<open>shlex.read_token\<close> called until the input is used
  up, as \<^verbatim>\<open>list(lex)\<close> does: its state is the lexer's \<^verbatim>\<open>state\<close> (\<open>LSpace\<close> for
  \<^verbatim>\<open>' '\<close>, \<open>LWord\<close> for \<^verbatim>\<open>'a'\<close>, \<open>LQuote q\<close> inside the quote \<open>q\<close>, \<open>LEscape s\<close>
  after a backslash with \<^verbatim>\<open>escapedstate\<close> \<open>s\<close>), the token read so far and the flag
  \<^verbatim>\<open>quoted\<close>. The lexer raises \<^verbatim>\<open>ValueError\<close> when the input ends inside a
  quote or after a backslash.
\<close>

datatype lstate = LSpace | LWord | LQuote char | LEscape lstate

definition emit :: "string \<Rightarrow> exn + string list \<Rightarrow> exn + string list" where
  "emit tok r = (case r of Inl e \<Rightarrow> Inl e | Inr ts \<Rightarrow> Inr (tok # ts))"

text \<open>At the end of the input the token is returned, unless it is empty and was not
  quoted: then \<^verbatim>\<open>read_token\<close> returns \<^verbatim>\<open>None\<close> and the iteration stops.\<close>

definition last_token :: "string \<Rightarrow> bool \<Rightarrow> string list" where
  "last_token tok quoted = (if tok = [] \<and> \<not> quoted then [] else [tok])"

fun lex :: "lstate \<Rightarrow> string \<Rightarrow> bool \<Rightarrow> string \<Rightarrow> exn + string list" where
  "lex LSpace tok quoted [] = Inr (last_token tok quoted)"
| "lex LSpace tok quoted (c # cs) =
     (if c = CHR '','' then
        (if tok \<noteq> [] \<or> quoted then emit tok (lex LSpace [] False cs)
         else lex LSpace tok quoted cs)
      else if c = BSL then lex (LEscape LWord) tok quoted cs
      else if c = SQ \<or> c = DQ then lex (LQuote c) tok quoted cs
      else lex LWord [c] quoted cs)"
| "lex (LQuote q) tok quoted [] = Inl (ValueError ''No closing quotation'')"
| "lex (LQuote q) tok quoted (c # cs) =
     (if c = q then lex LWord tok True cs
      else if c = BSL \<and> q = DQ then lex (LEscape (LQuote q)) tok True cs
      else lex (LQuote q) (tok @ [c]) True cs)"
| "lex (LEscape es) tok quoted [] = Inl (ValueError ''No escaped character'')"
| "lex (LEscape es) tok quoted (c # cs) =
     (case es of
        LQuote q \<Rightarrow>
          lex es ((if c \<noteq> BSL \<and> c \<noteq> q then tok @ [BSL] else tok) @ [c]) quoted cs
      | _ \<Rightarrow> lex es (tok @ [c]) quoted cs)"
| "lex LWord tok quoted [] = Inr (last_token tok quoted)"
| "lex LWord tok quoted (c # cs) =
     (if c = CHR '','' then
        (if tok \<noteq> [] \<or> quoted then emit tok (lex LSpace [] False cs)
         else lex LSpace tok quoted cs)
      else if c = SQ \<or> c = DQ then lex (LQuote c) tok quoted cs
      else if c = BSL then lex (LEscape LWord) tok quoted cs
      else lex LWord (tok @ [c]) quoted cs)"

definition shlex_split :: "string \<Rightarrow> exn + string list" where
  "shlex_split args_part = lex LSpace [] False args_part"

subsection \<open>\<^verbatim>\<open>parse_action\<close>\<close>

text \<open>
  The scan for the closing parenthesis (lines 224 to 239): the loop runs over the
  characters from \<^verbatim>\<open>end_idx\<close> on while \<^verbatim>\<open>depth > 0\<close>, and returns the final
  \<^verbatim>\<open>depth\<close> and \<^verbatim>\<open>end_idx\<close>.
\<close>

fun scan :: "string \<Rightarrow> nat \<Rightarrow> bool \<Rightarrow> bool \<Rightarrow> int \<Rightarrow> nat \<times> int" where
  "scan [] depth in_single_quote in_double_quote end_idx = (depth, end_idx)"
| "scan (char # rest) depth in_single_quote in_double_quote end_idx =
     (if depth = 0 then (depth, end_idx)
      else
        let in_single_quote' =
              (if char = SQ \<and> \<not> in_double_quote then \<not> in_single_quote else in_single_quote);
            in_double_quote' =
              (if char = SQ \<and> \<not> in_double_quote then in_double_quote
               else if char = DQ \<and> \<not> in_single_quote then \<not> in_double_quote
               else in_double_quote);
            depth' =
              (if \<not> in_single_quote' \<and> \<not> in_double_quote' then
                 (if char = CHR ''('' then depth + 1
                  else if char = CHR '')'' then depth - 1
                  else depth)
               else depth)
        in scan rest depth' in_single_quote' in_double_quote' (end_idx + 1))"

text \<open>
  The loop over the tokens (lines 252 to 289): a token with an \<^verbatim>\<open>=\<close> is split at the
  first one and stored in the dictionary \<^verbatim>\<open>kwargs\<close>, any other token is appended to
  \<^verbatim>\<open>args\<close>. The dictionary is a list of pairs in insertion order; storing under a
  key that is present replaces its value in place, as a Python \<^verbatim>\<open>dict\<close> does.
\<close>

fun dict_set :: "string \<Rightarrow> pyval \<Rightarrow> (string \<times> pyval) list \<Rightarrow> (string \<times> pyval) list" where
  "dict_set k v [] = [(k, v)]"
| "dict_set k v (p # ps) = (if fst p = k then (k, v) # ps else p # dict_set k v ps)"

fun bind_tokens ::
  "string list \<Rightarrow> pyval list \<Rightarrow> (string \<times> pyval) list \<Rightarrow> pyval list \<times> (string \<times> pyval) list"
where
  "bind_tokens [] args kwargs = (args, kwargs)"
| "bind_tokens (t # ts) args kwargs =
     (let token = strip t in
      if CHR ''='' \<in> set token then
        let key = strip (takeWhile (\<lambda>c. c \<noteq> CHR ''='') token);
            val = strip (drop 1 (dropWhile (\<lambda>c. c \<noteq> CHR ''='') token))
        in bind_tokens ts args (dict_set key (coerce val) kwargs)
      else bind_tokens ts (args @ [coerce token]) kwargs)"

text \<open>
  The result of \<^verbatim>\<open>parse_action\<close>: \<open>Inl e\<close> when it raises \<open>e\<close>, \<open>Inr None\<close> for the
  triple \<^verbatim>\<open>(None, None, None)\<close>, and \<open>Inr (Some (tool_name, args, kwargs))\<close>.
\<close>

type_synonym call = "string \<times> pyval list \<times> (string \<times> pyval) list"

text \<open>The body of the loop for a line that starts with \<^verbatim>\<open>ACTION:\<close> (lines 219 to
  290).\<close>

definition parse_line :: "string \<Rightarrow> exn + call option" where
  "parse_line line =
     (let action_text = strip (replace1 ''ACTION:'' [] line) in
      if CHR ''('' \<notin> set action_text \<and> CHR '')'' \<notin> set action_text
      then Inr (Some (strip action_text, [], []))
      else
        let start_idx = find action_text (CHR ''('');
            tool_name = strip (slice action_text 0 start_idx);
            (depth, end_idx) =
              scan (drop (nat (start_idx + 1)) action_text) 1 False False (start_idx + 1)
        in if depth \<noteq> 0 then Inr None
           else
             let args_part = strip (slice action_text (start_idx + 1) (end_idx - 1)) in
             if args_part = [] then Inr (Some (tool_name, [], []))
             else (case shlex_split args_part of
                     Inl e \<Rightarrow> Inl e
                   | Inr tokens \<Rightarrow>
                       (let (args, kwargs) = bind_tokens tokens [] []
                        in Inr (Some (tool_name, args, kwargs)))))"

fun parse_lines :: "string list \<Rightarrow> exn + call option" where
  "parse_lines [] = Inr None"
| "parse_lines (line # lines) =
     (if startswith line ''ACTION:'' then parse_line line else parse_lines lines)"

definition parse_action :: "string \<Rightarrow> exn + call option" where
  "parse_action text = parse_lines (split_chr NL (strip text))"

subsection \<open>More string primitives used by the loop\<close>

text \<open>\<^verbatim>\<open>s.split(sep)\<close> and \<^verbatim>\<open>s.replace(old, new)\<close> for a non-empty \<^verbatim>\<open>sep\<close> or
  \<^verbatim>\<open>old\<close>: the occurrences are found from the left and do not overlap. After an
  occurrence at \<open>c # cs\<close> the scan goes on behind it, at
  \<open>drop (length sep - 1) cs\<close>.\<close>

fun split_from :: "string \<Rightarrow> string \<Rightarrow> string \<Rightarrow> string list" where
  "split_from sep cur [] = [cur]"
| "split_from sep cur (c # cs) =
     (if startswith (c # cs) sep then cur # split_from sep [] (drop (length sep - 1) cs)
      else split_from sep (cur @ [c]) cs)"

definition split_str :: "string \<Rightarrow> string \<Rightarrow> string list" where
  "split_str s sep = split_from sep [] s"

fun replace_all :: "string \<Rightarrow> string \<Rightarrow> string \<Rightarrow> string" where
  "replace_all old new [] = []"
| "replace_all old new (c # cs) =
     (if startswith (c # cs) old then new @ replace_all old new (drop (length old - 1) cs)
      else c # replace_all old new cs)"

text \<open>\<^verbatim>\<open>sep.join(xs)\<close>.\<close>

fun join :: "string \<Rightarrow> string list \<Rightarrow> string" where
  "join sep [] = []"
| "join sep [x] = x"
| "join sep (x # y # ys) = x @ sep @ join sep (y # ys)"

subsection \<open>The dispatcher: \<^verbatim>\<open>AuditAgent.execute_tool\<close>\<close>

text \<open>
  A tool is a Python callable: applied to the positional and the keyword arguments it
  returns a string or raises, and it may change the world outside the program (the
  database it reads, the files and mails it writes), which the model passes along as a
  value of type \<open>'w\<close>. The language model behind \<^verbatim>\<open>call_llm\<close> is a function of the
  messages and that world. The agent is the object \<^verbatim>\<open>self\<close>: its dictionary of tools,
  its system prompt and its model.
\<close>

type_synonym kwargs = "(string \<times> pyval) list"
type_synonym message = "string \<times> string"
type_synonym 'w tool = "pyval list \<Rightarrow> kwargs \<Rightarrow> 'w \<Rightarrow> (exn + string) \<times> 'w"

record 'w agent =
  tools :: "string \<Rightarrow> 'w tool option"
  system_prompt :: string
  call_llm :: "message list \<Rightarrow> 'w \<Rightarrow> string \<times> 'w"

text \<open>\<^verbatim>\<open>try: return body  except Exception as e: return handler(e)\<close>.\<close>

definition try_except ::
  "(exn + string) \<times> 'w \<Rightarrow> (exn \<Rightarrow> string) \<Rightarrow> (exn + string) \<times> 'w" where
  "try_except body handler =
     (case body of
        (Inr v, w) \<Rightarrow> (Inr v, w)
      | (Inl e, w) \<Rightarrow> (Inr (handler e), w))"

definition execute_tool ::
  "'w agent \<Rightarrow> string \<Rightarrow> pyval list \<Rightarrow> kwargs \<Rightarrow> 'w \<Rightarrow> (exn + string) \<times> 'w" where
  "execute_tool self tool_name args kwargs w =
     (case tools self tool_name of
        None \<Rightarrow> (Inr (''Error: unknown tool '' @ [SQ] @ tool_name @ [SQ]), w)
      | Some tool \<Rightarrow>
          try_except (tool args kwargs w)
            (\<lambda>e. ''Error executing '' @ tool_name @ '': '' @ message e))"

subsection \<open>The step reporter: \<^verbatim>\<open>json.dumps(step_data, ensure_ascii=False)\<close>\<close>

datatype json = JStr string | JInt nat | JList "json list" | JObj "(string \<times> json) list"

text \<open>A character inside a JSON string: the quote, the backslash and the control
  characters below 0x20 are escaped, every other character stands for itself.\<close>

definition hex_digit :: "nat \<Rightarrow> char" where
  "hex_digit n = ''0123456789abcdef'' ! (n mod 16)"

definition json_escape :: "char \<Rightarrow> string" where
  "json_escape c =
     (if c = DQ then [BSL, DQ]
      else if c = BSL then [BSL, BSL]
      else if c = NL then [BSL, CHR ''n'']
      else if c = CHR 0x0D then [BSL, CHR ''r'']
      else if c = CHR 0x09 then [BSL, CHR ''t'']
      else if c = CHR 0x08 then [BSL, CHR ''b'']
      else if c = CHR 0x0C then [BSL, CHR ''f'']
      else if (of_char c :: nat) < 32
        then [BSL, CHR ''u'', CHR ''0'', CHR ''0'',
              hex_digit (of_char c div 16), hex_digit (of_char c)]
      else [c])"

definition json_string :: "string \<Rightarrow> string" where
  "json_string s = [DQ] @ concat (map json_escape s) @ [DQ]"

text \<open>\<^verbatim>\<open>str(n)\<close> for a natural number.\<close>

fun str_nat :: "nat \<Rightarrow> string" where
  "str_nat n =
     (if n < 10 then [''0123456789'' ! n]
      else str_nat (n div 10) @ [''0123456789'' ! (n mod 10)])"

declare str_nat.simps [simp del]

fun dumps :: "json \<Rightarrow> string" where
  "dumps (JStr s) = json_string s"
| "dumps (JInt n) = str_nat n"
| "dumps (JList xs) = ''['' @ join '', '' (map dumps xs) @ '']''"
| "dumps (JObj kvs) =
     ''{'' @ join '', '' (map (\<lambda>kv. json_string (fst kv) @ '': '' @ dumps (snd kv)) kvs) @ ''}''"

text \<open>A step of the history is the dictionary
  \<^verbatim>\<open>{"thought": thought, "tools": tool_calls}\<close>, a tool call the dictionary
  \<^verbatim>\<open>{"tool": tool_name, "result": observation}\<close>.\<close>

type_synonym tool_call = "string \<times> string"
type_synonym step = "string \<times> tool_call list"

definition tool_call_json :: "tool_call \<Rightarrow> json" where
  "tool_call_json tc = JObj [(''tool'', JStr (fst tc)), (''result'', JStr (snd tc))]"

definition step_json :: "step \<Rightarrow> json" where
  "step_json s =
     JObj [(''thought'', JStr (fst s)), (''tools'', JList (map tool_call_json (snd s)))]"

definition step_event :: "nat \<Rightarrow> string \<Rightarrow> tool_call list \<Rightarrow> json" where
  "step_event step_num thought tool_calls =
     JObj [(''type'', JStr ''step''), (''step'', JInt step_num), (''thought'', JStr thought),
           (''tools'', JList (map tool_call_json tool_calls))]"

definition final_event :: "string \<Rightarrow> string \<Rightarrow> step list \<Rightarrow> json" where
  "final_event thought final_part steps =
     JObj [(''type'', JStr ''final''), (''thought'', JStr thought),
           (''answer'', JStr final_part), (''steps'', JList (map step_json steps))]"

definition max_steps_event :: "step list \<Rightarrow> json" where
  "max_steps_event steps =
     JObj [(''type'', JStr ''final''), (''answer'', JStr ''Max steps reached.''),
           (''steps'', JList (map step_json steps))]"

definition step_line :: "json \<Rightarrow> string" where
  "step_line step_data = ''STEP_JSON:'' @ dumps step_data"

subsection \<open>The conversation loop: \<^verbatim>\<open>AuditAgent.run\<close>\<close>

text \<open>
  The state of a run: the list \<^verbatim>\<open>messages\<close>, the list \<^verbatim>\<open>steps\<close>, the loop variable
  \<^verbatim>\<open>step_num\<close> (0 before the first iteration), the lines printed so far (one entry
  for each call of \<^verbatim>\<open>print\<close>) and the world of the tools and the model.
\<close>

record 'w rstate =
  messages :: "message list"
  steps :: "step list"
  step_num :: nat
  out :: "string list"
  world :: 'w

definition MAX_ACTIONS_PER_STEP :: nat where
  "MAX_ACTIONS_PER_STEP = 5"

text \<open>The thought of a reply (lines 392 to 396): the first line that, stripped and in
  lower case, starts with \<^verbatim>\<open>thought:\<close>.\<close>

fun extract_thought :: "string list \<Rightarrow> string" where
  "extract_thought [] = []"
| "extract_thought (line # lines) =
     (if startswith (lower (strip line)) ''thought:''
      then strip (drop (length ''thought:'') (strip line))
      else extract_thought lines)"

text \<open>The guard of the final-answer branch (line 399) and the answer it extracts
  (lines 400 and 401).\<close>

definition is_final :: "string \<Rightarrow> bool" where
  "is_final llm_reply = (contains llm_reply ''FINAL ANSWER:'' \<and> \<not> contains llm_reply ''ACTION:'')"

definition final_answer :: "string \<Rightarrow> string" where
  "final_answer llm_reply =
     strip (replace_all ''Goodbye!'' []
              (replace_all ''You: quit'' []
                 (strip (last (split_str llm_reply ''FINAL ANSWER:'')))))"

text \<open>The action lines of a reply (line 412).\<close>

definition action_lines :: "string \<Rightarrow> string list" where
  "action_lines llm_reply =
     filter (\<lambda>l. startswith (strip l) ''ACTION:'') (split_chr NL llm_reply)"

text \<open>
  The loop over the action lines (lines 417 to 425), with the counter
  \<^verbatim>\<open>action_count\<close> and the lists \<^verbatim>\<open>observations\<close> and \<^verbatim>\<open>tool_calls\<close>. The first
  component of the result is the exception that ended the loop, if one did.
\<close>

fun exec_actions ::
  "'w agent \<Rightarrow> string list \<Rightarrow> nat \<Rightarrow> string list \<Rightarrow> tool_call list \<Rightarrow> 'w
     \<Rightarrow> exn option \<times> string list \<times> tool_call list \<times> 'w"
where
  "exec_actions self [] action_count observations tool_calls w =
     (None, observations, tool_calls, w)"
| "exec_actions self (line # lines) action_count observations tool_calls w =
     (if action_count \<ge> MAX_ACTIONS_PER_STEP then (None, observations, tool_calls, w)
      else
        (case parse_action line of
           Inl e \<Rightarrow> (Some e, observations, tool_calls, w)
         | Inr None \<Rightarrow>
             exec_actions self lines (action_count + 1) observations tool_calls w
         | Inr (Some (tool_name, args, kwargs)) \<Rightarrow>
             (if tool_name \<noteq> [] then
                (case execute_tool self tool_name args kwargs w of
                   (Inl e, w') \<Rightarrow> (Some e, observations, tool_calls, w')
                 | (Inr observation, w') \<Rightarrow>
                     exec_actions self lines (action_count + 1)
                       (observations @
                          [''Tool: '' @ tool_name @ [NL] @ ''Result: '' @ observation])
                       (tool_calls @ [(tool_name, observation)]) w')
              else exec_actions self lines (action_count + 1) observations tool_calls w)))"

definition observations_message :: "string list \<Rightarrow> string" where
  "observations_message observations =
     ''OBSERVATIONS:'' @ [NL] @ join [NL, NL] observations @ [NL, NL] @
     ''Based on these observations, what is your next step? '' @
     ''If done, provide FINAL ANSWER. Do NOT include ACTION lines if concluding.''"

definition corrective_message :: string where
  "corrective_message =
     ''Please use ACTION: tool_name(arguments) or provide your FINAL ANSWER:''"

text \<open>One iteration of the loop (lines 389 to 448): it returns the final answer, goes
  on to the next iteration, or is left by an exception.\<close>

datatype step_result = Final string | Next | Abort exn

definition run_step :: "'w agent \<Rightarrow> bool \<Rightarrow> 'w rstate \<Rightarrow> step_result \<times> 'w rstate" where
  "run_step self structured st =
     (let (llm_reply, w1) = call_llm self (messages st) (world st);
          thought = extract_thought (split_chr NL llm_reply)
      in
      if is_final llm_reply then
        (let final_part = final_answer llm_reply in
         (Final final_part,
          st\<lparr>world := w1,
             out := out st @
               (if structured then [step_line (final_event thought final_part (steps st))]
                else [[NL] @ ''FINAL ANALYSIS:'' @ [NL] @ final_part @ [NL],
                      replicate 70 (CHR ''='')])\<rparr>))
      else
        (case exec_actions self (action_lines llm_reply) 0 [] [] w1 of
           (Some e, observations, tool_calls, w2) \<Rightarrow> (Abort e, st\<lparr>world := w2\<rparr>)
         | (None, observations, tool_calls, w2) \<Rightarrow>
             (Next,
              st\<lparr>world := w2,
                 out := out st @
                   (if structured \<and> tool_calls \<noteq> []
                    then [step_line (step_event (step_num st) thought tool_calls)] else []),
                 steps := steps st @ [(thought, tool_calls)],
                 messages := messages st @
                   [(''assistant'', llm_reply),
                    (''user'', if tool_calls \<noteq> [] then observations_message observations
                               else corrective_message)]\<rparr>)))"

text \<open>The loop \<^verbatim>\<open>for step_num in range(1, max_steps + 1)\<close> with the iterations that
  remain, and what follows it (lines 450 to 452).\<close>

datatype run_result = Returned "string option" | Raised exn

fun run_loop :: "'w agent \<Rightarrow> bool \<Rightarrow> nat \<Rightarrow> 'w rstate \<Rightarrow> run_result \<times> 'w rstate" where
  "run_loop self structured 0 st =
     (Returned None,
      if structured then st\<lparr>out := out st @ [step_line (max_steps_event (steps st))]\<rparr>
      else st)"
| "run_loop self structured (Suc remaining) st =
     (case run_step self structured (st\<lparr>step_num := step_num st + 1\<rparr>) of
        (Final final_part, st') \<Rightarrow> (Returned (Some final_part), st')
      | (Abort e, st') \<Rightarrow> (Raised e, st')
      | (Next, st') \<Rightarrow> run_loop self structured remaining st')"

text \<open>The state before the loop (lines 382 to 386).\<close>

definition initial_state :: "'w agent \<Rightarrow> string \<Rightarrow> 'w \<Rightarrow> 'w rstate" where
  "initial_state self question w =
     \<lparr>messages = [(''system'', system_prompt self), (''user'', question)],
      steps = [], step_num = 0, out = [], world = w\<rparr>"

definition run ::
  "'w agent \<Rightarrow> string \<Rightarrow> nat \<Rightarrow> bool \<Rightarrow> 'w \<Rightarrow> run_result \<times> 'w rstate" where
  "run self question max_steps structured w =
     run_loop self structured max_steps (initial_state self question w)"


subsection \<open>The coercion grammar in the words of the specification\<close>











subsection \<open>Well-formed pieces of a call\<close>



subsection \<open>Agents and replies used as concrete inputs\<close>


text \<open>An agent whose model gives the same reply to every prompt, with the one tool
  \<^verbatim>\<open>list_tables\<close>. Its world counts the calls of the model.\<close>

definition scripted_agent :: "string \<Rightarrow> nat agent" where
  "scripted_agent reply =
     \<lparr>tools = (\<lambda>name. if name = ''list_tables''
                       then Some (\<lambda>args kwargs w. (Inr ''audit_events'', w))
                       else None),
      system_prompt = ''You are an analyst.'',
      call_llm = (\<lambda>ms w. (reply, w + 1))\<rparr>"

text \<open>A reply with an action line and a final answer, a reply with seven well-formed
  action lines, a reply whose first five action lines do not parse, and a reply with
  neither marker.\<close>

definition both_reply :: string where
  "both_reply = ''ACTION: list_tables()'' @ [NL] @ ''FINAL ANSWER: done''"



definition unparsed_reply :: string where
  "unparsed_reply =
     ''ACTION: a1('' @ [NL] @ ''ACTION: a2('' @ [NL] @ ''ACTION: a3('' @ [NL] @
     ''ACTION: a4('' @ [NL] @ ''ACTION: a5('' @ [NL] @ ''ACTION: list_tables()''"

text \<open>A reply that has both markers, the second one inside the line of the first.\<close>

definition inline_reply :: string where
  "inline_reply = ''FINAL ANSWER: I would run ACTION: list_tables()''"



section \<open>Auxiliary facts\<close>

subsection \<open>Strings\<close>











subsection \<open>The coercion\<close>













subsection \<open>The parser on plain text\<close>























subsection \<open>The action loop\<close>


lemma exec_actions_at_cap:
  "MAX_ACTIONS_PER_STEP \<le> action_count \<Longrightarrow>
   exec_actions self ls action_count obs calls w = (None, obs, calls, w)"
  by (cases ls) simp_all

lemma exec_actions_cut:
  "MAX_ACTIONS_PER_STEP \<le> action_count + length ls \<Longrightarrow>
   exec_actions self (ls @ rest) action_count obs calls w =
   exec_actions self ls action_count obs calls w"
proof (induction ls arbitrary: action_count obs calls w)
  case Nil
  then show ?case by (simp add: exec_actions_at_cap)
next
  case (Cons l ls)
  then have step: "\<And>obs calls w. exec_actions self (ls @ rest) (Suc action_count) obs calls w =
      exec_actions self ls (Suc action_count) obs calls w"
    by simp
  show ?case
    by (simp add: step split: sum.splits option.splits prod.splits)
qed

lemma exec_actions_take:
  "exec_actions self ls 0 obs calls w =
   exec_actions self (take MAX_ACTIONS_PER_STEP ls) 0 obs calls w"
proof (cases "MAX_ACTIONS_PER_STEP \<le> length ls")
  case True
  then have "exec_actions self (take MAX_ACTIONS_PER_STEP ls @ drop MAX_ACTIONS_PER_STEP ls) 0 obs calls w =
      exec_actions self (take MAX_ACTIONS_PER_STEP ls) 0 obs calls w"
    by (intro exec_actions_cut) simp
  then show ?thesis by simp
next
  case False
  then show ?thesis by simp
qed

lemma exec_actions_unparsed:
  "\<forall>l \<in> set ls. parse_action l = Inr None \<Longrightarrow>
   exec_actions self ls action_count obs calls w = (None, obs, calls, w)"
  by (induction ls arbitrary: action_count) simp_all




subsection \<open>One iteration of the loop\<close>




lemma run_step_abort:
  "call_llm self (messages st) (world st) = (llm_reply, w1) \<Longrightarrow> \<not> is_final llm_reply \<Longrightarrow>
   exec_actions self (action_lines llm_reply) 0 [] [] w1 = (Some e, observations, tool_calls, w2) \<Longrightarrow>
   run_step self structured st = (Abort e, st\<lparr>world := w2\<rparr>)"
  by (simp add: run_step_def Let_def)

lemma run_step_next:
  "call_llm self (messages st) (world st) = (llm_reply, w1) \<Longrightarrow> \<not> is_final llm_reply \<Longrightarrow>
   exec_actions self (action_lines llm_reply) 0 [] [] w1 = (None, observations, tool_calls, w2) \<Longrightarrow>
   run_step self structured st =
     (Next,
      st\<lparr>world := w2,
         out := out st @
           (if structured \<and> tool_calls \<noteq> []
            then [step_line (step_event (step_num st)
                    (extract_thought (split_chr NL llm_reply)) tool_calls)]
            else []),
         steps := steps st @ [(extract_thought (split_chr NL llm_reply), tool_calls)],
         messages := messages st @
           [(''assistant'', llm_reply),
            (''user'', if tool_calls \<noteq> [] then observations_message observations
                       else corrective_message)]\<rparr>)"
  by (simp add: run_step_def Let_def)




lemma run_loop_Suc_next:
  "run_step self structured (st\<lparr>step_num := step_num st + 1\<rparr>) = (Next, st') \<Longrightarrow>
   run_loop self structured (Suc remaining) st = run_loop self structured remaining st'"
  by simp

subsection \<open>A model that never acts and never concludes\<close>





subsection \<open>The reporter\<close>










section \<open>Properties of the dispatcher\<close>



section \<open>Properties of the parser\<close>



text \<open>
  Claim C4. \<^verbatim>\<open>parse_action\<close> does raise on some malformed lines. The scan for the
  closing parenthesis does not know the backslash, the tokenizer does: on
  \<^verbatim>\<open>ACTION: query_postgres(a\)\<close> the argument text is \<^verbatim>\<open>a\\<close> and the tokenizer
  raises \<^verbatim>\<open>ValueError\<close> (no escaped character); on
  \<^verbatim>\<open>ACTION: query_postgres("a\")")\<close> the argument text is \<^verbatim>\<open>"a\"\<close>, a quote that
  never closes, and the tokenizer raises \<^verbatim>\<open>ValueError\<close> (no closing quotation). A
  call with unbalanced parentheses does give the null triple.
\<close>

theorem parse_action_raises:
  "parse_action (''ACTION: query_postgres(a'' @ [BSL] @ '')'') =
     Inl (ValueError ''No escaped character'') \<and>
   parse_action (''ACTION: query_postgres('' @ [DQ] @ ''a'' @ [BSL, DQ] @ '')'' @ [DQ] @ '')'') =
     Inl (ValueError ''No closing quotation'') \<and>
   parse_action ''ACTION: NAME(a, b'' = Inr None"
  by code_simp

text \<open>
  Claim C5. A token whose only \<^verbatim>\<open>=\<close> stands inside quotes is split all the same: the
  tokenizer removes the quotes, and the test \<^verbatim>\<open>'=' in token\<close> sees the bare text.
  \<^verbatim>\<open>ACTION: NAME('a=b')\<close> gives no positional argument and the keyword argument
  \<^verbatim>\<open>a\<close> with the value \<^verbatim>\<open>b\<close>, and the call that rule 3 of the system prompt
  prescribes, \<^verbatim>\<open>query_postgres("SELECT 1 FROM audit_events WHERE user_id='X' LIMIT 1")\<close>,
  gives a keyword argument named \<^verbatim>\<open>SELECT 1 FROM audit_events WHERE user_id\<close>.
\<close>

theorem quoted_equals_is_keyword:
  "parse_action (''ACTION: NAME('' @ [SQ] @ ''a=b'' @ [SQ] @ '')'') =
     Inr (Some (''NAME'', [], [(''a'', PStr ''b'')])) \<and>
   parse_action (''ACTION: query_postgres('' @ [DQ] @
       ''SELECT 1 FROM audit_events WHERE user_id='' @ [SQ] @ ''X'' @ [SQ] @ '' LIMIT 1'' @
       [DQ] @ '')'') =
     Inr (Some (''query_postgres'', [],
       [(''SELECT 1 FROM audit_events WHERE user_id'', PStr ([SQ] @ ''X'' @ [SQ] @ '' LIMIT 1''))]))"
  by code_simp




section \<open>Properties of the loop\<close>

text \<open>
  Claim C1, as the code has it. A reply that contains both \<^verbatim>\<open>FINAL ANSWER:\<close> and
  \<^verbatim>\<open>ACTION:\<close> does not take the final-answer branch, so the iteration never returns
  a final answer. It takes the action branch: when the loop over the action lines
  completes, the step is recorded, the reply and one user message are appended, and
  the loop goes on with its next iteration. The user message is the observations when
  at least one tool call was executed, and the corrective re-prompt only when none
  was. (What happens when the parser raises on an action line is left open here.)
\<close>

theorem both_markers_take_action_branch:
  assumes "call_llm self (messages st) (world st) = (llm_reply, w1)"
    and "contains llm_reply ''FINAL ANSWER:''" and "contains llm_reply ''ACTION:''"
  shows "(\<forall>a. fst (run_step self structured (st\<lparr>step_num := step_num st + 1\<rparr>)) \<noteq> Final a) \<and>
    (\<forall>observations tool_calls w2.
       exec_actions self (action_lines llm_reply) 0 [] [] w1 =
         (None, observations, tool_calls, w2) \<longrightarrow>
       (\<exists>st'. run_step self structured (st\<lparr>step_num := step_num st + 1\<rparr>) = (Next, st') \<and>
          run_loop self structured (Suc remaining) st = run_loop self structured remaining st' \<and>
          steps st' = steps st @ [(extract_thought (split_chr NL llm_reply), tool_calls)] \<and>
          messages st' = messages st @
            [(''assistant'', llm_reply),
             (''user'', if tool_calls \<noteq> [] then observations_message observations
                        else corrective_message)]))"
proof -
  let ?st = "st\<lparr>step_num := step_num st + 1\<rparr>"
  from assms(1) have llm: "call_llm self (messages ?st) (world ?st) = (llm_reply, w1)" by simp
  from assms(3) have nf: "\<not> is_final llm_reply" by (simp add: is_final_def)
  obtain e observations tool_calls w2 where
    ex: "exec_actions self (action_lines llm_reply) 0 [] [] w1 = (e, observations, tool_calls, w2)"
    by (metis prod_cases4)
  have "\<forall>a. fst (run_step self structured ?st) \<noteq> Final a"
  proof (cases e)
    case None
    with run_step_next [OF llm nf, of observations tool_calls w2 structured] ex
    show ?thesis by simp
  next
    case (Some x)
    with run_step_abort [OF llm nf, of x observations tool_calls w2 structured] ex
    show ?thesis by simp
  qed
  moreover have "\<forall>observations tool_calls w2.
       exec_actions self (action_lines llm_reply) 0 [] [] w1 =
         (None, observations, tool_calls, w2) \<longrightarrow>
       (\<exists>st'. run_step self structured ?st = (Next, st') \<and>
          run_loop self structured (Suc remaining) st = run_loop self structured remaining st' \<and>
          steps st' = steps st @ [(extract_thought (split_chr NL llm_reply), tool_calls)] \<and>
          messages st' = messages st @
            [(''assistant'', llm_reply),
             (''user'', if tool_calls \<noteq> [] then observations_message observations
                        else corrective_message)])"
    using run_step_next [OF llm nf, of _ _ _ structured] by simp
  ultimately show ?thesis by blast
qed

theorem both_markers_take_action_branch_witness:
  "contains inline_reply ''FINAL ANSWER:'' \<and> contains inline_reply ''ACTION:'' \<and>
   fst (run_step (scripted_agent inline_reply) False
          ((initial_state (scripted_agent inline_reply) ''q'' 0)\<lparr>step_num := 1\<rparr>)) = Next \<and>
   snd (last (messages (snd (run_step (scripted_agent inline_reply) False
          ((initial_state (scripted_agent inline_reply) ''q'' 0)\<lparr>step_num := 1\<rparr>))))) =
     corrective_message"
proof -
  let ?ag = "scripted_agent inline_reply"
  let ?st = "initial_state ?ag ''q'' 0"
  have f: "contains inline_reply ''FINAL ANSWER:''" by code_simp
  have a: "contains inline_reply ''ACTION:''" by code_simp
  have llm: "call_llm ?ag (messages ?st) (world ?st) = (inline_reply, 1)"
    by (simp add: scripted_agent_def initial_state_def)
  have ex: "exec_actions ?ag (action_lines inline_reply) 0 [] [] 1 = (None, [], [], 1)"
    by code_simp
  have sn: "?st\<lparr>step_num := step_num ?st + 1\<rparr> = ?st\<lparr>step_num := 1\<rparr>"
    by (simp add: initial_state_def)
  from both_markers_take_action_branch [OF llm f a, of False 0] ex
  obtain st' where "run_step ?ag False (?st\<lparr>step_num := step_num ?st + 1\<rparr>) = (Next, st')"
    "messages st' = messages ?st @ [(''assistant'', inline_reply), (''user'', corrective_message)]"
    by auto
  with f a sn show ?thesis by simp
qed

text \<open>
  The reply \<^verbatim>\<open>ACTION: list_tables()\<close>, \<^verbatim>\<open>FINAL ANSWER: done\<close> has both
  markers; its action line is executed and the message that follows is the
  observations, not the corrective re-prompt.
\<close>

theorem both_markers_counterexample:
  "contains both_reply ''FINAL ANSWER:'' \<and> contains both_reply ''ACTION:'' \<and>
   fst (run_step (scripted_agent both_reply) False
          ((initial_state (scripted_agent both_reply) ''q'' 0)\<lparr>step_num := 1\<rparr>)) = Next \<and>
   steps (snd (run_step (scripted_agent both_reply) False
          ((initial_state (scripted_agent both_reply) ''q'' 0)\<lparr>step_num := 1\<rparr>))) =
     [([], [(''list_tables'', ''audit_events'')])] \<and>
   snd (last (messages (snd (run_step (scripted_agent both_reply) False
          ((initial_state (scripted_agent both_reply) ''q'' 0)\<lparr>step_num := 1\<rparr>))))) =
     observations_message [''Tool: list_tables'' @ [NL] @ ''Result: audit_events''] \<and>
   snd (last (messages (snd (run_step (scripted_agent both_reply) False
          ((initial_state (scripted_agent both_reply) ''q'' 0)\<lparr>step_num := 1\<rparr>))))) \<noteq>
     corrective_message"
  by code_simp





text \<open>
  Claim C10. The counter \<^verbatim>\<open>action_count\<close> counts action lines, parsed or not: the
  loop over the action lines of a reply does what it does on the first five of them, so
  a line after the fifth is neither parsed nor executed, however many of the first five
  parsed. When none of the first five parses, no tool is executed at all, even if a
  well-formed line follows.
\<close>

theorem lines_beyond_cap_never_run:
  "exec_actions self (action_lines llm_reply) 0 [] [] w =
     exec_actions self (take 5 (action_lines llm_reply)) 0 [] [] w \<and>
   ((\<forall>l \<in> set (take 5 (action_lines llm_reply)). parse_action l = Inr None) \<longrightarrow>
      exec_actions self (action_lines llm_reply) 0 [] [] w = (None, [], [], w))"
proof -
  have cut: "exec_actions self (action_lines llm_reply) 0 [] [] w =
      exec_actions self (take 5 (action_lines llm_reply)) 0 [] [] w"
    using exec_actions_take [of self "action_lines llm_reply" "[]" "[]" w]
    by (simp add: MAX_ACTIONS_PER_STEP_def)
  show ?thesis
    using cut exec_actions_unparsed [of "take 5 (action_lines llm_reply)" self 0 "[]" "[]" w]
    by simp
qed

lemma unparsed_reply_lines:
  "action_lines unparsed_reply =
     [''ACTION: a1('', ''ACTION: a2('', ''ACTION: a3('', ''ACTION: a4('', ''ACTION: a5('',
      ''ACTION: list_tables()'']"
  by code_simp

theorem lines_beyond_cap_never_run_witness:
  "length (action_lines unparsed_reply) = 6 \<and>
   map parse_action (take 5 (action_lines unparsed_reply)) = replicate 5 (Inr None) \<and>
   parse_action (action_lines unparsed_reply ! 5) = Inr (Some (''list_tables'', [], [])) \<and>
   exec_actions (scripted_agent unparsed_reply) (action_lines unparsed_reply) 0 [] [] 0 =
     (None, [], [], 0)"
proof -
  have p: "map parse_action (take 5 (action_lines unparsed_reply)) = replicate 5 (Inr None)"
    unfolding unparsed_reply_lines by code_simp
  then have "\<forall>l \<in> set (take 5 (action_lines unparsed_reply)). parse_action l = Inr None"
    by (metis (no_types, lifting) in_set_replicate list.set_map imageI)
  with lines_beyond_cap_never_run [of "scripted_agent unparsed_reply" unparsed_reply 0]
  have "exec_actions (scripted_agent unparsed_reply) (action_lines unparsed_reply) 0 [] [] 0 =
     (None, [], [], 0)" by blast
  moreover have "parse_action (action_lines unparsed_reply ! 5) = Inr (Some (''list_tables'', [], []))"
    unfolding unparsed_reply_lines by code_simp
  moreover have "length (action_lines unparsed_reply) = 6"
    unfolding unparsed_reply_lines by simp
  ultimately show ?thesis using p by simp
qed




section \<open>Properties of the reporter\<close>




end
